theory Spec2Isabelle
  imports Main
begin

section \<open>JavaScript values and React elements\<close>

text \<open>
  The components of the blog are pure functions from a props object to a React element.
  A React element is kept as its type and its props; the children of an element are the
  \<open>children\<close> entry of its props, as React stores them.

  An element type is a host tag (\<open>'div'\<close>), a component imported from a module that is
  not part of the sources (\<open>Link\<close> of next/link, \<open>Hike\<close> of @code-hike/scrollycoding under
  its local name \<open>HikeSteps\<close>, \<open>DateFormatter\<close>), or one of the components that the sources
  define.
\<close>

datatype component = Hike_c | HikeWithPreview_c | HikeWithNoPreview_c | PostPreview_c | Intro_c

datatype etype = Host string | Extern string | Comp component

text \<open>
  The values that props carry: \<open>undefined\<close>, \<open>null\<close>, booleans, numbers, strings, arrays,
  plain objects and React elements. A number is an integer of magnitude below \<open>2^53\<close>,
  where a JavaScript number is exact. A string is a list of bytes, which is a list of
  JavaScript's code units as long as the text is ASCII. An object is the list of its own
  enumerable properties in insertion order, each key once. (JavaScript enumerates the keys
  that are array indices before the others; nothing here reads the order of the keys.)
  Symbols, functions and objects without \<open>Object.prototype\<close> are not values of this model.
\<close>

datatype jsval =
    Undefined
  | Null
  | Bool bool
  | Num int
  | Str string
  | Arr "jsval list"
  | Obj "(string \<times> jsval) list"
  | Elem etype "(string \<times> jsval) list"

type_synonym props = "(string \<times> jsval) list"

text \<open>\<open>o[k]\<close> on an own property, and what destructuring \<open>{k}\<close> binds: \<open>undefined\<close> when
  the key is absent.\<close>

definition get :: "props \<Rightarrow> string \<Rightarrow> jsval" where
  "get ps k = (case map_of ps k of None \<Rightarrow> Undefined | Some v \<Rightarrow> v)"

text \<open>\<open>o[k] = v\<close>: an existing key keeps its place, a new key goes last.\<close>

fun set_prop :: "props \<Rightarrow> string \<Rightarrow> jsval \<Rightarrow> props" where
  "set_prop [] k v = [(k, v)]"
| "set_prop ((k', v') # ps) k v =
     (if k' = k then (k, v) # ps else (k', v') # set_prop ps k v)"

text \<open>The rest pattern \<open>{k1, ..., ...rest}\<close>: the properties whose key is not named.\<close>

definition rest :: "string list \<Rightarrow> props \<Rightarrow> props" where
  "rest ks ps = filter (\<lambda>(k, v). k \<notin> set ks) ps"

text \<open>Decimal digits of a natural number, the way JavaScript prints an index or an
  integer in the range of the model.\<close>

fun show_nat :: "nat \<Rightarrow> string" where
  "show_nat n =
     (if n < 10 then [char_of (48 + n)]
      else show_nat (n div 10) @ [char_of (48 + n mod 10)])"

declare show_nat.simps [simp del]

fun join :: "string \<Rightarrow> string list \<Rightarrow> string" where
  "join sep [] = []"
| "join sep [x] = x"
| "join sep (x # y # xs) = x @ sep @ join sep (y # xs)"

text \<open>
  \<open>ToString\<close>, which a template literal applies to each substitution. An array prints
  its elements separated by commas, with \<open>undefined\<close> and \<open>null\<close> printed as nothing; a
  plain object, and a React element, prints as \<open>[object Object]\<close>.
\<close>

fun to_string :: "jsval \<Rightarrow> string" where
  "to_string Undefined = ''undefined''"
| "to_string Null = ''null''"
| "to_string (Bool b) = (if b then ''true'' else ''false'')"
| "to_string (Num n) = (if n < 0 then ''-'' @ show_nat (nat (- n)) else show_nat (nat n))"
| "to_string (Str s) = s"
| "to_string (Arr vs) =
     join '','' (map (\<lambda>v. if v = Undefined \<or> v = Null then [] else to_string v) vs)"
| "to_string (Obj ps) = ''[object Object]''"
| "to_string (Elem t ps) = ''[object Object]''"

text \<open>
  The own enumerable properties that a spread \<open>...v\<close> copies: those of an object, the
  indexed elements of an array or of a string, and none of \<open>undefined\<close>, \<open>null\<close>, a boolean
  or a number. Of the record that React keeps for an element (\<open>$$typeof\<close>, \<open>type\<close>,
  \<open>key\<close>, \<open>ref\<close>, \<open>props\<close>, \<open>_owner\<close>) only \<open>props\<close> is a value of this model, so the
  spread of an element is given as far as the model goes. No component of the sources
  spreads an element, an array or a string: they spread \<open>props\<close>, \<open>config\<close> and
  \<open>props.editorProps\<close>.
\<close>

fun own_props :: "jsval \<Rightarrow> props" where
  "own_props (Obj ps) = ps"
| "own_props (Arr vs) = zip (map show_nat [0..<length vs]) vs"
| "own_props (Str s) = zip (map show_nat [0..<length s]) (map (\<lambda>c. Str [c]) s)"
| "own_props (Elem t ps) = [(''props'', Obj ps)]"
| "own_props _ = []"

text \<open>An object literal, and the attribute list of a JSX tag, which compiles to one:
  \<open>k: v\<close> sets a property, \<open>...v\<close> copies the own properties of \<open>v\<close>, left to right.\<close>

datatype attr = Attr string jsval | Spread jsval

definition assign :: "props \<Rightarrow> props \<Rightarrow> props" where
  "assign acc ps = foldl (\<lambda>a (k, v). set_prop a k v) acc ps"

fun add_attr :: "props \<Rightarrow> attr \<Rightarrow> props" where
  "add_attr acc (Attr k v) = set_prop acc k v"
| "add_attr acc (Spread v) = assign acc (own_props v)"

definition obj_lit :: "attr list \<Rightarrow> props" where
  "obj_lit attrs = foldl add_attr [] attrs"

text \<open>
  \<open>React.createElement(type, config, ...children)\<close>: the props are the config without
  the reserved names; one child is stored as it is, several as an array, none leaves
  \<open>children\<close> unset. No component of the sources declares default props, and those of
  the external components are theirs to apply.
\<close>

definition RESERVED_PROPS :: "string list" where
  "RESERVED_PROPS = [''key'', ''ref'', ''__self'', ''__source'']"

definition createElement :: "etype \<Rightarrow> props \<Rightarrow> jsval list \<Rightarrow> jsval" where
  "createElement t config children =
     Elem t (case children of
               [] \<Rightarrow> rest RESERVED_PROPS config
             | [c] \<Rightarrow> set_prop (rest RESERVED_PROPS config) ''children'' c
             | _ \<Rightarrow> set_prop (rest RESERVED_PROPS config) ''children'' (Arr children))"

section \<open>components/mdx-components.js\<close>

definition classes :: props where
  "classes =
     [(''ch-hike-step-content-unfocused'', Str ''opacity-25 transition-opacity''),
      (''ch-hike-step-content'', Str ''border-none''),
      (''ch-frame-button'', Str ''bg-button-bg border-button-bg''),
      (''ch-frame-title-bar'', Str ''bg-editor-bg''),
      (''ch-editor-tab'', Str ''border-none bg-editor-bg'')]"

definition preset :: props where
  "preset =
     [(''template'', Str ''react''),
      (''customSetup'',
         Obj [(''dependencies'', Obj [(''react-svg-curve'', Str ''0.2.0'')])])]"

definition defaultConfig :: props where
  "defaultConfig = [(''noPreview'', Bool False), (''defaultFileName'', Str ''App.js'')]"

definition Hike :: "props \<Rightarrow> jsval" where
  "Hike p =
     (let config = get p ''config'';
          props = rest [''config''] p;
          editorProps = obj_lit
            [Attr ''codeProps'' (Obj [(''minColumns'', Num 40)]),
             Attr ''frameProps'' (Obj [(''button'', Null)]),
             Spread (get props ''editorProps'')]
      in createElement (Extern ''HikeSteps'')
           (obj_lit
              [Attr ''classes'' (Obj classes),
               Attr ''config'' (Obj (obj_lit [Spread (Obj defaultConfig), Spread config])),
               Attr ''preset'' (Obj preset),
               Spread (Obj props),
               Attr ''editorProps'' (Obj editorProps)])
           [])"

definition HikeWithPreview :: "props \<Rightarrow> jsval" where
  "HikeWithPreview props = createElement (Comp Hike_c) (obj_lit [Spread (Obj props)]) []"

definition HikeWithNoPreview :: "props \<Rightarrow> jsval" where
  "HikeWithNoPreview props =
     createElement (Comp Hike_c)
       (obj_lit [Attr ''config'' (Obj [(''noPreview'', Bool True)]), Spread (Obj props)]) []"

text \<open>The exported registry. A value is a component, or the higher-order component
  \<open>withFocusHandler\<close> of the external library applied to one.\<close>

datatype renderer = Component etype | WithFocusHandler etype

definition components :: "(string \<times> renderer) list" where
  "components =
     [(''pre'', Component (Extern ''CodeBlock'')),
      (''a'', WithFocusHandler (Extern ''CustomLink'')),
      (''Hike'', Component (Comp Hike_c)),
      (''HikeWithPreview'', Component (Comp HikeWithPreview_c)),
      (''HikeWithNoPreview'', Component (Comp HikeWithNoPreview_c)),
      (''Focus'', Component (Extern ''Focus'')),
      (''StepHead'', Component (Extern ''StepHead'')),
      (''CodeSlot'', Component (Extern ''CodeSlot'')),
      (''PreviewSlot'', Component (Extern ''PreviewSlot''))]"

section \<open>components/post-preview.js and components/intro.js\<close>

definition PostPreview :: "props \<Rightarrow> jsval" where
  "PostPreview p =
     (let title = get p ''title'';
          date = get p ''date'';
          excerpt = get p ''excerpt'';
          author = get p ''author'';
          slug = get p ''slug''
      in createElement (Host ''div'') (obj_lit [Attr ''className'' (Str ''my-40'')])
           [createElement (Host ''h3'')
              (obj_lit [Attr ''className'' (Str ''mb-3 text-3xl font-bold leading-snug'')])
              [createElement (Extern ''Link'')
                 (obj_lit
                    [Attr ''as'' (Str (''/posts/'' @ to_string slug)),
                     Attr ''href'' (Str ''/posts/[slug]''),
                     Attr ''className'' (Str ''hover:underline'')])
                 [title]],
            createElement (Host ''div'') (obj_lit [Attr ''className'' (Str ''mb-4 text-lg'')])
              [createElement (Extern ''DateFormatter'') (obj_lit [Attr ''dateString'' date]) []],
            createElement (Host ''p'')
              (obj_lit [Attr ''className'' (Str ''mb-4 text-lg leading-relaxed'')])
              [excerpt]])"

definition Intro :: "props \<Rightarrow> jsval" where
  "Intro p =
     createElement (Host ''section'')
       (obj_lit [Attr ''className''
          (Str ''flex flex-col items-center mt-16 mb-16 md:flex-row md:justify-between md:mb-12'')])
       [createElement (Host ''h1'')
          (obj_lit [Attr ''className''
             (Str ''text-6xl font-bold leading-tight tracking-tighter md:text-8xl md:pr-8'')])
          [Str ''Blog.''],
        createElement (Host ''h4'')
          (obj_lit [Attr ''className'' (Str ''mt-5 text-lg text-center md:text-left md:pl-8'')])
          [Str ''by'',
           Str '' '',
           createElement (Host ''a'')
             (obj_lit
                [Attr ''href'' (Str ''https://github.com/Neo42''),
                 Attr ''className''
                   (Str ''underline transition-colors duration-200 hover:text-success'')])
             [Str ''Johnny Jiang'']]]"

section \<open>Rendering a component element\<close>

text \<open>
  React renders an element whose type is a function component by calling the function
  with the element's props, and goes on with what it returns, until the type is a host
  tag or, here, a component of an external library.
\<close>

fun call :: "component \<Rightarrow> props \<Rightarrow> jsval" where
  "call Hike_c ps = Hike ps"
| "call HikeWithPreview_c ps = HikeWithPreview ps"
| "call HikeWithNoPreview_c ps = HikeWithNoPreview ps"
| "call PostPreview_c ps = PostPreview ps"
| "call Intro_c ps = Intro ps"

fun comp_rank :: "component \<Rightarrow> nat" where
  "comp_rank HikeWithPreview_c = 2"
| "comp_rank HikeWithNoPreview_c = 2"
| "comp_rank _ = 1"

fun rank :: "jsval \<Rightarrow> nat" where
  "rank (Elem (Comp c) ps) = comp_rank c"
| "rank _ = 0"

function render :: "jsval \<Rightarrow> jsval" where
  "render (Elem (Comp c) ps) = render (call c ps)"
| "render (Elem (Host t) ps) = Elem (Host t) ps"
| "render (Elem (Extern t) ps) = Elem (Extern t) ps"
| "render Undefined = Undefined"
| "render Null = Null"
| "render (Bool b) = Bool b"
| "render (Num n) = Num n"
| "render (Str s) = Str s"
| "render (Arr vs) = Arr vs"
| "render (Obj ps) = Obj ps"
  by pat_completeness auto
termination
proof (relation "measure rank")
  fix c ps
  have "rank (call c ps) < comp_rank c"
    by (cases c)
       (simp_all add: Hike_def HikeWithPreview_def HikeWithNoPreview_def PostPreview_def
          Intro_def createElement_def Let_def)
  then show "(call c ps, Elem (Comp c) ps) \<in> measure rank"
    by simp
qed simp

text \<open>The targets of the \<open>Link\<close> elements of a tree: the value of the \<open>as\<close> attribute,
  which is the path that next/link shows and navigates to.\<close>

fun link_targets :: "jsval \<Rightarrow> jsval list" where
  "link_targets (Arr vs) = concat (map link_targets vs)"
| "link_targets (Obj ps) = concat (map (\<lambda>(k, v). link_targets v) ps)"
| "link_targets (Elem t ps) =
     (if t = Extern ''Link'' then [get ps ''as''] else [])
       @ concat (map (\<lambda>(k, v). link_targets v) ps)"
| "link_targets _ = []"

text \<open>Reading an element: its type, a prop, and its \<open>n\<close>-th child (a single child is
  stored as it is, several as an array). What is not there reads as \<open>undefined\<close>.\<close>

fun elem_type :: "jsval \<Rightarrow> etype option" where
  "elem_type (Elem t ps) = Some t"
| "elem_type _ = None"

fun prop_of :: "string \<Rightarrow> jsval \<Rightarrow> jsval" where
  "prop_of k (Elem t ps) = get ps k"
| "prop_of k _ = Undefined"

fun nth_or_undefined :: "jsval list \<Rightarrow> nat \<Rightarrow> jsval" where
  "nth_or_undefined [] n = Undefined"
| "nth_or_undefined (v # vs) 0 = v"
| "nth_or_undefined (v # vs) (Suc n) = nth_or_undefined vs n"

definition child :: "nat \<Rightarrow> jsval \<Rightarrow> jsval" where
  "child n e =
     (case prop_of ''children'' e of
        Arr vs \<Rightarrow> nth_or_undefined vs n
      | v \<Rightarrow> (if n = 0 then v else Undefined))"

text \<open>The element types of a tree, in document order.\<close>

fun element_types :: "jsval \<Rightarrow> etype list" where
  "element_types (Arr vs) = concat (map element_types vs)"
| "element_types (Obj ps) = concat (map (\<lambda>(k, v). element_types v) ps)"
| "element_types (Elem t ps) = t # concat (map (\<lambda>(k, v). element_types v) ps)"
| "element_types _ = []"

section \<open>What React draws\<close>

text \<open>
  The text that React draws for a tree, or the error that it throws. \<open>undefined\<close>, \<open>null\<close>
  and booleans draw nothing; a string draws itself and a number its digits; an array draws
  its elements in order; a plain object is not a valid child, and React throws. A host
  element draws its children. \<open>Link\<close> of next/link draws an anchor around the children it
  is given, which is how \<open>post-preview.js\<close> uses it (text children, and a \<open>className\<close> for
  the anchor). What the other external components draw, and a component of the sources
  that is still to be called, are left unspecified: the model gives a text only where it
  knows it.
\<close>

datatype render_error = InvalidChild | Unspecified

text \<open>
  Modelled from the spec: \<open>components/date-formatter\<close> is not among the sources. The spec
  lists \<open>DateFormatter\<close> with the presentational components, which take named attributes
  and deterministically produce markup, and says of the preview, which hands it the date,
  that a missing field renders as empty and is not a failure. So a date string is drawn as
  text, in a format that the spec leaves open and that is a parameter here, and a missing
  date string draws nothing. The spec does not say what is drawn for a value that is
  neither.
\<close>

definition DateFormatter :: "(string \<Rightarrow> string) \<Rightarrow> props \<Rightarrow> render_error + string" where
  "DateFormatter fmt ps =
     (case get ps ''dateString'' of
        Str s \<Rightarrow> Inr (fmt s)
      | Undefined \<Rightarrow> Inr []
      | _ \<Rightarrow> Inl Unspecified)"

fun visible_text :: "(string \<Rightarrow> string) \<Rightarrow> jsval \<Rightarrow> render_error + string"
  and children_text :: "(string \<Rightarrow> string) \<Rightarrow> props \<Rightarrow> render_error + string"
  and texts :: "(string \<Rightarrow> string) \<Rightarrow> jsval list \<Rightarrow> render_error + string" where
  "visible_text fmt Undefined = Inr []"
| "visible_text fmt Null = Inr []"
| "visible_text fmt (Bool b) = Inr []"
| "visible_text fmt (Num n) = Inr (to_string (Num n))"
| "visible_text fmt (Str s) = Inr s"
| "visible_text fmt (Arr vs) = texts fmt vs"
| "visible_text fmt (Obj ps) = Inl InvalidChild"
| "visible_text fmt (Elem (Host t) ps) = children_text fmt ps"
| "visible_text fmt (Elem (Extern t) ps) =
     (if t = ''Link'' then children_text fmt ps
      else if t = ''DateFormatter'' then DateFormatter fmt ps
      else Inl Unspecified)"
| "visible_text fmt (Elem (Comp c) ps) = Inl Unspecified"
| "children_text fmt [] = Inr []"
| "children_text fmt ((k, v) # ps) =
     (if k = ''children'' then visible_text fmt v else children_text fmt ps)"
| "texts fmt [] = Inr []"
| "texts fmt (v # vs) =
     (case visible_text fmt v of
        Inl e \<Rightarrow> Inl e
      | Inr a \<Rightarrow> (case texts fmt vs of Inl e \<Rightarrow> Inl e | Inr b \<Rightarrow> Inr (a @ b)))"

text \<open>A named attribute of a Post as the preview receives it: a string, or missing
  (the key is absent, or its value is \<open>undefined\<close>). The text of such an attribute.\<close>

definition string_or_missing :: "jsval \<Rightarrow> bool" where
  "string_or_missing v = (case v of Str s \<Rightarrow> True | Undefined \<Rightarrow> True | _ \<Rightarrow> False)"

definition field_text :: "jsval \<Rightarrow> string" where
  "field_text v = (case v of Str s \<Rightarrow> s | _ \<Rightarrow> [])"

section \<open>Resolving an MDX tag against the registry\<close>

text \<open>
  Modelled from the spec: the page that hands \<open>components\<close> to the MDX renderer is not
  among the sources, and the renderer is an external library. The spec says that a tag
  found in the registry is drawn by the renderer registered for it, and that an
  unrecognized tag falls back to default HTML element handling, which is not a failure.
  The lookup is by own key.
\<close>

datatype resolved = Custom renderer | DefaultHtml string

definition mdx_resolve :: "(string \<times> renderer) list \<Rightarrow> string \<Rightarrow> resolved" where
  "mdx_resolve registry tag =
     (case map_of registry tag of Some r \<Rightarrow> Custom r | None \<Rightarrow> DefaultHtml tag)"

section \<open>Content files and the content loader\<close>

text \<open>
  The front matter of a content file, with the fields of the file format: \<open>title\<close>,
  \<open>excerpt\<close>, \<open>coverImage\<close>, \<open>date\<close>, \<open>author.name\<close> and \<open>author.picture\<close>,
  \<open>ogImage.url\<close>. A field that the block does not have is \<open>None\<close>. Strings are bytes
  (UTF-8), with the YAML quoting removed.
\<close>

record author =
  author_name :: string
  author_picture :: string

record front_matter =
  fm_title :: "string option"
  fm_excerpt :: "string option"
  fm_coverImage :: "string option"
  fm_date :: "string option"
  fm_author :: "author option"
  fm_ogImage :: "string option"

record content_file =
  cf_path :: string
  cf_front :: front_matter
  cf_body :: string

record post =
  post_title :: string
  post_excerpt :: string
  post_date :: string
  post_coverImage :: "string option"
  post_author :: "author option"
  post_ogImage :: "string option"
  post_slug :: string
  post_body :: string

text \<open>
  Modelled from the spec: the content loader, which is not among the sources. The spec
  asks that every Post has a title, an excerpt and a date, that an empty title never
  passes validation, and that a content file with a required field missing fails the build
  for that file with an error that lists the offending file path, instead of a partial
  Post. The error carries the path and the name of the field. The slug is derived from
  the file name; how is not said, so the derivation is a parameter.
\<close>

datatype load_error = ValidationError string string

definition load_post :: "(string \<Rightarrow> string) \<Rightarrow> content_file \<Rightarrow> load_error + post" where
  "load_post slug_of f =
     (case fm_title (cf_front f) of
        None \<Rightarrow> Inl (ValidationError (cf_path f) ''title'')
      | Some t \<Rightarrow>
          if t = [] then Inl (ValidationError (cf_path f) ''title'')
          else
            (case fm_excerpt (cf_front f) of
               None \<Rightarrow> Inl (ValidationError (cf_path f) ''excerpt'')
             | Some e \<Rightarrow>
                 (case fm_date (cf_front f) of
                    None \<Rightarrow> Inl (ValidationError (cf_path f) ''date'')
                  | Some d \<Rightarrow>
                      Inr \<lparr>post_title = t, post_excerpt = e, post_date = d,
                           post_coverImage = fm_coverImage (cf_front f),
                           post_author = fm_author (cf_front f),
                           post_ogImage = fm_ogImage (cf_front f),
                           post_slug = slug_of (cf_path f),
                           post_body = cf_body f\<rparr>)))"

subsection \<open>The front matter of the posts\<close>

definition fp_md :: front_matter where
  \<open>fp_md =
     \<lparr>fm_title = Some
         (''FP in Plain English: How Composition & Currying Work''),
      fm_excerpt = Some
         (''Functional programming is a cool programming style with a lot of neat be'' @
          ''nefits, but it's also poorly explained and rarely understood. It's mainl'' @
          ''y because of the lack of intuition in math language. People can't unders'' @
          ''tand you if you sound alien. In this series of posts, I'm going to short'' @
          ''ly explain to you some FP concepts in plain and simple, day-to-day Engli'' @
          ''sh. Hope you find this helpful.''),
      fm_coverImage = Some
         (''/assets/blog/fp/cover.jpg''),
      fm_date = Some
         (''2021-04-09''),
      fm_author = None,
      fm_ogImage = None\<rparr>\<close>

definition functor_front :: front_matter where
  \<open>functor_front =
     \<lparr>fm_title = Some
         (''How to Build a Mini Functor''),
      fm_excerpt = Some
         (''Functors and monads. Both of them are useful and important design patter'' @
          ''ns in functional programming. More importantly, you can't understand mon'' @
          ''ads without functors. So in this post, let's talk about functors. let's '' @
          ''start with the definition of a functor.''),
      fm_coverImage = Some
         (''/assets/blog/hello-world/cover.jpg''),
      fm_date = Some
         (''2021-04-12''),
      fm_author = Some \<lparr>author_name = ''Hao Jiang'', author_picture = ''/assets/blog/authors/hao.png''\<rparr>,
      fm_ogImage = Some (''/assets/blog/hello-world/cover.jpg'')\<rparr>\<close>

definition monad_md :: front_matter where
  \<open>monad_md =
     \<lparr>fm_title = Some
         (''How to Build a Mini IO Monad''),
      fm_excerpt = Some
         (''Instinctively, when we look at a difficult concept for the first time, t'' @
          ''hat ONE question that pops into our minds is usually "what is it". Becau'' @
          ''se asking "what" is such a valuable human nature that helps us protect o'' @
          ''urselves from our natural enemy in the old days. And it can be effective'' @
          '' if we already know what we could be dealing with. Lions, tigers, or cut'' @
          ''e puppies. But if this unfamiliar concept is deeper than you thought it '' @
          ''would be, you'd better switch your tactics and asking "how does it work"'' @
          '', more close to our instincts, "what can it do" or "what can it be used '' @
          ''for". By asking the right question, we can just discover the concept our'' @
          ''selves.''),
      fm_coverImage = Some
         (''/assets/blog/monad/cover.jpg''),
      fm_date = Some
         (''2021-04-25''),
      fm_author = None,
      fm_ogImage = None\<rparr>\<close>

definition recipes_front :: front_matter where
  \<open>recipes_front =
     \<lparr>fm_title = Some
         (''React Performance Recipes''),
      fm_excerpt = Some
         (''Performance optimization can be daunting, but there are still more solut'' @
          ''ions than problems. In this post, I talked about how to tackle common pe'' @
          ''rformance issues when developing with React. Get a solution for every Re'' @
          ''act performance problem you might encounter.''),
      fm_coverImage = Some
         (''/assets/blog/react-po/cover.jpg''),
      fm_date = Some
         (''2022-01-05''),
      fm_author = None,
      fm_ogImage = None\<rparr>\<close>

definition react_performance_recipes_md :: front_matter where
  \<open>react_performance_recipes_md =
     \<lparr>fm_title = Some
         (''React Performance Recipes''),
      fm_excerpt = Some
         (''Performance optimization can be daunting, but there are still more solut'' @
          ''ions than problems. In this post, I talked about how to tackle common pe'' @
          ''rformance issues when developing with React. Get a solution for every Re'' @
          ''act performance problem you might encounter.''),
      fm_coverImage = Some
         (''/assets/blog/react-po/cover.jpg''),
      fm_date = Some
         (''2022-01-05''),
      fm_author = Some \<lparr>author_name = ''Hao Jiang'', author_picture = ''/assets/blog/authors/hao.png''\<rparr>,
      fm_ogImage = Some (''/assets/blog/react-po/cover.jpg'')\<rparr>\<close>

definition mini_react_front :: front_matter where
  \<open>mini_react_front =
     \<lparr>fm_title = Some
         (''How to Build a Mini React (wip '' @
          [CHR 0xF0, CHR 0x9F, CHR 0x9A, CHR 0xA7] @
          '')''),
      fm_excerpt = Some
         (''Create your own version of a thing is THE way to understand it. So I dec'' @
          ''ided to rewrite a simple version of React from scratch. I'm going to cal'' @
          ''l the little library "Reacti" since it is just my personal little "recre'' @
          ''ation" of that mighty tool, and that name sounds natural to me.''),
      fm_coverImage = Some
         (''/assets/blog/react/cover.jpg''),
      fm_date = Some
         (''2021-06-30''),
      fm_author = Some \<lparr>author_name = ''Hao Jiang'', author_picture = ''/assets/blog/authors/hao.png''\<rparr>,
      fm_ogImage = Some (''/assets/blog/react/cover.jpg'')\<rparr>\<close>

definition react_md :: front_matter where
  \<open>react_md =
     \<lparr>fm_title = Some
         (''How to Build a Mini React: From JSX Element to useState''),
      fm_excerpt = Some
         (''"What I cannot create, I do not understand." - Richard Feynman''),
      fm_coverImage = Some
         (''/assets/blog/react/cover.jpg''),
      fm_date = Some
         (''2022-03-27''),
      fm_author = None,
      fm_ogImage = None\<rparr>\<close>

definition service_worker_md :: front_matter where
  \<open>service_worker_md =
     \<lparr>fm_title = Some
         (''Service Worker Explained''),
      fm_excerpt = Some
         (''Websites are by default fragile and brittle, as they are always failing '' @
          ''because of slow connections, server downtime and simply going offline. H'' @
          ''owever, service workers might be a good way to help the web have an intu'' @
          ''itive and empathetic experience for the user.''),
      fm_coverImage = None,
      fm_date = Some
         (''2022-03-23''),
      fm_author = None,
      fm_ogImage = None\<rparr>\<close>

definition closures_front :: front_matter where
  \<open>closures_front =
     \<lparr>fm_title = Some
         (''How Closures Work''),
      fm_excerpt = Some
         (''Closures are not easy to grasp, but it ain'' @
          [CHR 0xE2, CHR 0x80, CHR 0x99] @
          ''t impossible. We, as learners, have to understand that, 99% of the time,'' @
          '' a concept is always built upon others. We have to figure out how all th'' @
          ''ose dots are connected. Who'' @
          [CHR 0xE2, CHR 0x80, CHR 0x99] @
          ''s first, who'' @
          [CHR 0xE2, CHR 0x80, CHR 0x99] @
          ''s next. It'' @
          [CHR 0xE2, CHR 0x80, CHR 0x99] @
          ''s usually a good approach to trace what you don'' @
          [CHR 0xE2, CHR 0x80, CHR 0x99] @
          ''t understand in reverse. Start with the definition, break it, and repeat'' @
          '' it on every small part. And here, we are gonna do this on closures.''),
      fm_coverImage = Some
         (''/assets/blog/dynamic-routing/cover.jpg''),
      fm_date = Some
         (''2020-06-19''),
      fm_author = Some \<lparr>author_name = ''Hao Jiang'', author_picture = ''/assets/blog/authors/hao.png''\<rparr>,
      fm_ogImage = Some (''/assets/blog/closure/cover.jpg'')\<rparr>\<close>

text \<open>The content set: the five files of \<open>posts/\<close>, each with the front matter at its
  head. The four other blocks are the further front matter blocks that the sources hold.\<close>

definition content_set :: "(string \<times> front_matter) list" where
  "content_set =
     [(''posts/fp.md'', fp_md),
      (''posts/monad.md'', monad_md),
      (''posts/react-performance-recipes.md'', react_performance_recipes_md),
      (''posts/react.md'', react_md),
      (''posts/service-worker.md'', service_worker_md)]"

definition further_fronts :: "front_matter list" where
  "further_fronts = [functor_front, recipes_front, mini_react_front, closures_front]"

text \<open>The required-field invariant on a front matter block: a title and an excerpt that
  are not empty, and a date.\<close>

definition required_fields :: "front_matter \<Rightarrow> bool" where
  "required_fields fm =
     ((case fm_title fm of None \<Rightarrow> False | Some t \<Rightarrow> t \<noteq> []) \<and>
      (case fm_excerpt fm of None \<Rightarrow> False | Some e \<Rightarrow> e \<noteq> []) \<and>
      (case fm_date fm of None \<Rightarrow> False | Some d \<Rightarrow> True))"

text \<open>The configuration that an element hands to the external renderer: the own
  properties of its \<open>config\<close> prop.\<close>

definition delegated_config :: "jsval \<Rightarrow> props" where
  "delegated_config e = own_props (prop_of ''config'' e)"

section \<open>Objects: lookup, assignment, rest\<close>

lemma map_of_set_prop: "map_of (set_prop ps k v) = (map_of ps)(k \<mapsto> v)"
  by (induction ps) (auto simp: fun_eq_iff)

lemma get_set_prop: "get (set_prop ps k v) k' = (if k' = k then v else get ps k')"
  by (simp add: get_def map_of_set_prop)

lemma map_of_assign: "map_of (assign acc ps) = map_of acc ++ map_of (rev ps)"
proof (induction ps arbitrary: acc)
  case Nil
  then show ?case by (simp add: assign_def)
next
  case (Cons kv ps)
  obtain k v where kv: "kv = (k, v)" by (cases kv)
  have "assign acc (kv # ps) = assign (set_prop acc k v) ps"
    by (simp add: assign_def kv)
  then show ?case
    by (simp add: Cons.IH map_of_set_prop kv map_add_def fun_eq_iff split: option.splits)
qed

lemma map_of_rest: "map_of (rest ks ps) k = (if k \<in> set ks then None else map_of ps k)"
  by (induction ps) (auto simp: rest_def)

lemma get_rest: "get (rest ks ps) k = (if k \<in> set ks then Undefined else get ps k)"
  by (simp add: get_def map_of_rest)

lemma rest_set_prop:
  "rest ks (set_prop ps k v) = (if k \<in> set ks then rest ks ps else set_prop (rest ks ps) k v)"
  by (induction ps) (auto simp: rest_def)

lemma rest_assign: "rest ks (assign acc ps) = assign (rest ks acc) (rest ks ps)"
proof (induction ps arbitrary: acc)
  case Nil
  then show ?case by (simp add: assign_def rest_def)
next
  case (Cons kv ps)
  obtain k v where kv: "kv = (k, v)" by (cases kv)
  have step: "assign acc (kv # ps) = assign (set_prop acc k v) ps" for acc
    by (simp add: assign_def kv)
  have "rest ks (kv # ps) = (if k \<in> set ks then rest ks ps else kv # rest ks ps)"
    by (simp add: rest_def kv)
  then show ?case
    by (simp add: step Cons.IH rest_set_prop) (simp add: assign_def kv)
qed

lemma rest_rest: "rest ks (rest js ps) = rest js (rest ks ps)"
  by (simp add: rest_def conj_commute)

lemma rest_idem: "rest ks (rest ks ps) = rest ks ps"
  by (simp add: rest_def)

lemma set_prop_fresh: "k \<notin> fst ` set ps \<Longrightarrow> set_prop ps k v = ps @ [(k, v)]"
  by (induction ps) auto

lemma assign_distinct: "distinct (map fst (acc @ ps)) \<Longrightarrow> assign acc ps = acc @ ps"
proof (induction ps arbitrary: acc)
  case Nil
  then show ?case by (simp add: assign_def)
next
  case (Cons kv ps)
  obtain k v where kv: "kv = (k, v)" by (cases kv)
  from Cons.prems have fresh: "k \<notin> fst ` set acc"
    by (auto simp: kv)
  have "assign acc (kv # ps) = assign (acc @ [kv]) ps"
    by (simp add: assign_def kv set_prop_fresh [OF fresh])
  moreover from Cons.prems have "distinct (map fst ((acc @ [kv]) @ ps))"
    by simp
  ultimately show ?case
    using Cons.IH [of "acc @ [kv]"] by simp
qed

lemma map_of_rev_distinct: "distinct (map fst ps) \<Longrightarrow> map_of (rev ps) = map_of ps"
proof (induction ps)
  case Nil
  then show ?case by simp
next
  case (Cons kv ps)
  obtain k v where kv: "kv = (k, v)" by (cases kv)
  from Cons.prems have none: "map_of ps k = None"
    by (simp add: kv map_of_eq_None_iff)
  from Cons have IH: "map_of (rev ps) = map_of ps"
    by simp
  show ?case
    by (auto simp: kv IH none fun_eq_iff map_add_def split: option.splits)
qed

lemma map_of_rev_rest_None: "k \<in> set ks \<Longrightarrow> map_of (rev (rest ks ps)) k = None"
  by (auto simp: map_of_eq_None_iff rest_def)

lemma map_of_rev_None: "k \<notin> fst ` set ps \<Longrightarrow> map_of (rev ps) k = None"
  by (simp add: map_of_eq_None_iff)

section \<open>The Hike components\<close>

lemma Hike_rest_reserved: "Hike (rest RESERVED_PROPS p) = Hike p"
proof -
  have c: "get (rest RESERVED_PROPS p) ''config'' = get p ''config''"
    by (simp add: get_rest RESERVED_PROPS_def)
  have e: "get (rest [''config''] (rest RESERVED_PROPS p)) ''editorProps''
             = get (rest [''config''] p) ''editorProps''"
    by (simp add: get_rest RESERVED_PROPS_def)
  have r: "rest RESERVED_PROPS (rest [''config''] (rest RESERVED_PROPS p))
             = rest RESERVED_PROPS (rest [''config''] p)"
    by (simp add: rest_rest [of RESERVED_PROPS] rest_idem)
  show ?thesis
    unfolding Hike_def Let_def createElement_def c e
    by (simp add: obj_lit_def rest_set_prop rest_assign r) 
qed

lemma render_Hike: "render (Hike p) = Hike p"
  by (simp add: Hike_def Let_def createElement_def)


lemma Hike_type: "elem_type (Hike p) = Some (Extern ''HikeSteps'')"
  by (simp add: Hike_def Let_def createElement_def)

lemma Hike_config:
  "prop_of ''config'' (Hike p) = Obj (assign defaultConfig (own_props (get p ''config'')))"
proof -
  have d: "assign [] defaultConfig = defaultConfig"
    by (simp add: assign_def defaultConfig_def)
  show ?thesis
    unfolding Hike_def Let_def createElement_def 
    by (simp add: obj_lit_def get_rest RESERVED_PROPS_def get_set_prop d)
       (simp add: get_def map_of_assign map_of_set_prop map_add_def map_of_rev_rest_None)
qed

lemma HikeWithNoPreview_unfold:
  "HikeWithNoPreview props =
     Elem (Comp Hike_c)
       (rest RESERVED_PROPS (assign [(''config'', Obj [(''noPreview'', Bool True)])] props))"
  by (simp add: HikeWithNoPreview_def createElement_def obj_lit_def)

text \<open>
  C4. For every config object \<open>c\<close> that the caller supplies, \<open>Hike\<close> returns an element
  of the external renderer whose \<open>config\<close> is an object that holds, at every key, the value
  of \<open>c\<close> when \<open>c\<close> has the key and the value of the defaults
  \<open>{noPreview: false, defaultFileName: 'App.js'}\<close> otherwise. In particular \<open>noPreview\<close> is
  \<open>false\<close> when \<open>c\<close> omits it and \<open>defaultFileName\<close> is \<open>'App.js'\<close> when \<open>c\<close> omits it.
\<close>

theorem Hike_config_defaults:
  assumes "get p ''config'' = Obj c" and "distinct (map fst c)"
  shows "elem_type (Hike p) = Some (Extern ''HikeSteps'') \<and>
         prop_of ''config'' (Hike p) = Obj (delegated_config (Hike p)) \<and>
         (\<forall>k. get (delegated_config (Hike p)) k =
                (case map_of c k of Some v \<Rightarrow> v | None \<Rightarrow> get defaultConfig k)) \<and>
         (map_of c ''noPreview'' = None \<longrightarrow>
            get (delegated_config (Hike p)) ''noPreview'' = Bool False) \<and>
         (map_of c ''defaultFileName'' = None \<longrightarrow>
            get (delegated_config (Hike p)) ''defaultFileName'' = Str ''App.js'')"
proof -
  let ?cfg = "assign defaultConfig c"
  have cfg: "delegated_config (Hike p) = ?cfg"
    by (simp add: delegated_config_def Hike_config assms(1))
  have obj: "prop_of ''config'' (Hike p) = Obj ?cfg"
    by (simp add: Hike_config assms(1))
  have over: "get ?cfg k = (case map_of c k of Some v \<Rightarrow> v | None \<Rightarrow> get defaultConfig k)" for k
    by (simp add: get_def map_of_assign map_of_rev_distinct [OF assms(2)] map_add_def
          split: option.splits)
  have np: "map_of c ''noPreview'' = None \<longrightarrow> get ?cfg ''noPreview'' = Bool False"
    by (simp add: over) (simp add: get_def defaultConfig_def)
  have fn: "map_of c ''defaultFileName'' = None \<longrightarrow> get ?cfg ''defaultFileName'' = Str ''App.js''"
    by (simp add: over) (simp add: get_def defaultConfig_def)
  from obj over np fn show ?thesis
    unfolding cfg by (simp add: Hike_type)
qed

theorem Hike_config_defaults_witness:
  "get [(''config'', Obj [(''defaultFileName'', Str ''index.js'')])] ''config''
     = Obj [(''defaultFileName'', Str ''index.js'')] \<and>
   distinct (map fst [(''defaultFileName'', Str ''index.js'')]) \<and>
   get (delegated_config (Hike [(''config'', Obj [(''defaultFileName'', Str ''index.js'')])]))
     ''noPreview'' = Bool False \<and>
   get (delegated_config (Hike [(''config'', Obj [(''defaultFileName'', Str ''index.js'')])]))
     ''defaultFileName'' = Str ''index.js''"
proof -
  have h1: "get [(''config'', Obj [(''defaultFileName'', Str ''index.js'')])] ''config''
              = Obj [(''defaultFileName'', Str ''index.js'')]"
    by (simp add: get_def)
  have h2: "distinct (map fst [(''defaultFileName'', Str ''index.js'')])"
    by simp
  have d: "get defaultConfig ''noPreview'' = Bool False"
    by (simp add: get_def defaultConfig_def)
  from Hike_config_defaults [OF h1 h2] h1 h2 d show ?thesis
    by simp
qed

text \<open>
  C5, as stated, fails: the caller's props are spread after \<open>config={{noPreview: true}}\<close>, so a
  \<open>config\<close> among them replaces it. With \<open>config={{noPreview: false}}\<close> the external renderer
  is handed \<open>noPreview = false\<close>.
\<close>

theorem HikeWithNoPreview_override_counterexample:
  "get (delegated_config
          (render (HikeWithNoPreview [(''config'', Obj [(''noPreview'', Bool False)])])))
     ''noPreview'' = Bool False"
  by (simp add: HikeWithNoPreview_unfold render_Hike delegated_config_def Hike_config)
     (simp add: assign_def rest_def RESERVED_PROPS_def get_def defaultConfig_def)

text \<open>
  C5, amended. For every props object that has no \<open>config\<close> of its own, rendering
  \<open>HikeWithNoPreview\<close> reaches the external renderer with the configuration
  \<open>{noPreview: true, defaultFileName: 'App.js'}\<close>: the preview is disabled.
\<close>

theorem HikeWithNoPreview_default:
  assumes "''config'' \<notin> fst ` set props"
  shows "elem_type (render (HikeWithNoPreview props)) = Some (Extern ''HikeSteps'') \<and>
         get (delegated_config (render (HikeWithNoPreview props))) ''noPreview'' = Bool True \<and>
         delegated_config (render (HikeWithNoPreview props))
           = [(''noPreview'', Bool True), (''defaultFileName'', Str ''App.js'')]"
proof -
  let ?q = "rest RESERVED_PROPS (assign [(''config'', Obj [(''noPreview'', Bool True)])] props)"
  have r: "render (HikeWithNoPreview props) = Hike ?q"
    by (simp add: HikeWithNoPreview_unfold render_Hike)
  have "map_of (rev props) ''config'' = None"
    using assms by (rule map_of_rev_None)
  then have "get ?q ''config'' = Obj [(''noPreview'', Bool True)]"
    by (simp add: get_rest RESERVED_PROPS_def) (simp add: get_def map_of_assign map_add_def)
  then have "delegated_config (Hike ?q) = [(''noPreview'', Bool True), (''defaultFileName'', Str ''App.js'')]"
    by (simp add: delegated_config_def Hike_config) (simp add: assign_def defaultConfig_def)
  then show ?thesis
    by (simp add: r Hike_type get_def)
qed

theorem HikeWithNoPreview_default_witness:
  "''config'' \<notin> fst ` set [(''children'', Str ''steps'')] \<and>
   get (delegated_config (render (HikeWithNoPreview [(''children'', Str ''steps'')])))
     ''noPreview'' = Bool True"
  using HikeWithNoPreview_default [of "[(''children'', Str ''steps'')]"] by (simp add: get_def)

text \<open>
  C9. \<open>HikeWithPreview\<close> is \<open>Hike\<close>: for every props object (each key once), rendering
  \<open>HikeWithPreview(props)\<close> gives exactly the element that rendering \<open>Hike(props)\<close> gives.
\<close>

theorem HikeWithPreview_renders_Hike:
  assumes "distinct (map fst props)"
  shows "render (HikeWithPreview props) = render (Hike props)"
proof -
  have "HikeWithPreview props = Elem (Comp Hike_c) (rest RESERVED_PROPS props)"
    using assms by (simp add: HikeWithPreview_def createElement_def obj_lit_def assign_distinct)
  then have "render (HikeWithPreview props) = render (Hike props)"
    by (simp add: Hike_rest_reserved)
  then show ?thesis .
qed

theorem HikeWithPreview_renders_Hike_witness:
  "distinct (map fst [(''children'', Str ''steps''), (''config'', Obj [(''noPreview'', Bool True)])]) \<and>
   render (HikeWithPreview [(''children'', Str ''steps''), (''config'', Obj [(''noPreview'', Bool True)])])
     = render (Hike [(''children'', Str ''steps''), (''config'', Obj [(''noPreview'', Bool True)])])"
  using HikeWithPreview_renders_Hike
    [of "[(''children'', Str ''steps''), (''config'', Obj [(''noPreview'', Bool True)])]"]
  by simp

section \<open>PostPreview and Intro\<close>

text \<open>The tree that \<open>PostPreview\<close> returns, with the element constructors evaluated.\<close>

lemma PostPreview_unfold:
  "PostPreview p =
     Elem (Host ''div'')
       [(''className'', Str ''my-40''),
        (''children'',
           Arr [Elem (Host ''h3'')
                  [(''className'', Str ''mb-3 text-3xl font-bold leading-snug''),
                   (''children'',
                      Elem (Extern ''Link'')
                        [(''as'', Str (''/posts/'' @ to_string (get p ''slug''))),
                         (''href'', Str ''/posts/[slug]''),
                         (''className'', Str ''hover:underline''),
                         (''children'', get p ''title'')])],
                Elem (Host ''div'')
                  [(''className'', Str ''mb-4 text-lg''),
                   (''children'', Elem (Extern ''DateFormatter'') [(''dateString'', get p ''date'')])],
                Elem (Host ''p'')
                  [(''className'', Str ''mb-4 text-lg leading-relaxed''),
                   (''children'', get p ''excerpt'')]])]"
  by (simp add: PostPreview_def createElement_def obj_lit_def rest_def RESERVED_PROPS_def)

lemma string_or_missing_cases:
  "string_or_missing v \<Longrightarrow> (\<exists>s. v = Str s) \<or> v = Undefined"
  by (cases v) (simp_all add: string_or_missing_def)

text \<open>
  C1. When the slug is the string \<open>s\<close>, and the title, the date and the excerpt hold no
  link of their own (as strings do not), the tree that \<open>PostPreview\<close> returns has exactly
  one \<open>Link\<close>, and its target path is \<open>/posts/\<close> followed by \<open>s\<close>. With title \<open>Sample\<close> and
  slug \<open>sample\<close> the target is \<open>/posts/sample\<close>.
\<close>

theorem PostPreview_link:
  assumes "get p ''slug'' = Str s"
    and "link_targets (get p ''title'') = []"
    and "link_targets (get p ''date'') = []"
    and "link_targets (get p ''excerpt'') = []"
  shows "link_targets (PostPreview p) = [Str (''/posts/'' @ s)]"
  using assms by (simp add: PostPreview_unfold get_def)

theorem PostPreview_link_witness:
  "get [(''title'', Str ''Sample''), (''slug'', Str ''sample'')] ''slug'' = Str ''sample'' \<and>
   link_targets (get [(''title'', Str ''Sample''), (''slug'', Str ''sample'')] ''title'') = [] \<and>
   link_targets (get [(''title'', Str ''Sample''), (''slug'', Str ''sample'')] ''date'') = [] \<and>
   link_targets (get [(''title'', Str ''Sample''), (''slug'', Str ''sample'')] ''excerpt'') = [] \<and>
   link_targets (PostPreview [(''title'', Str ''Sample''), (''slug'', Str ''sample'')])
     = [Str ''/posts/sample'']"
  using PostPreview_link [of "[(''title'', Str ''Sample''), (''slug'', Str ''sample'')]" "''sample''"]
  by (simp add: get_def)

text \<open>
  C7, as stated, fails for the slug: the template literal prints a missing slug as the
  text \<open>undefined\<close>, so the link of the preview points to \<open>/posts/undefined\<close>, which is
  not blank.
\<close>

theorem PostPreview_missing_slug_counterexample:
  "link_targets (PostPreview [(''title'', Str ''Sample''), (''date'', Str ''2020-06-19''),
                               (''excerpt'', Str ''An excerpt.'')])
     = [Str ''/posts/undefined'']"
  by (simp add: PostPreview_unfold get_def)

text \<open>
  C7, amended. For every input in which some of title, date, excerpt and slug are missing
  or undefined, and the others are strings, \<open>PostPreview\<close> still produces a preview block
  and rendering does not throw: the block draws the title, the date and the excerpt, one
  after the other. A missing or undefined title, date or excerpt draws nothing in its
  place. A missing or undefined slug is not blank in the output: the one link of the block
  points to \<open>/posts/undefined\<close>.
\<close>

theorem PostPreview_missing_fields:
  assumes "string_or_missing (get p ''title'')"
    and "string_or_missing (get p ''date'')"
    and "string_or_missing (get p ''excerpt'')"
    and "string_or_missing (get p ''slug'')"
  shows "elem_type (PostPreview p) = Some (Host ''div'') \<and>
         visible_text fmt (PostPreview p) =
           Inr (field_text (get p ''title'') @
                (case get p ''date'' of Str d \<Rightarrow> fmt d | _ \<Rightarrow> []) @
                field_text (get p ''excerpt'')) \<and>
         (get p ''title'' = Undefined \<longrightarrow> visible_text fmt (child 0 (PostPreview p)) = Inr []) \<and>
         (get p ''date'' = Undefined \<longrightarrow> visible_text fmt (child 1 (PostPreview p)) = Inr []) \<and>
         (get p ''excerpt'' = Undefined \<longrightarrow> visible_text fmt (child 2 (PostPreview p)) = Inr []) \<and>
         link_targets (PostPreview p) = [Str (''/posts/'' @ to_string (get p ''slug''))] \<and>
         (get p ''slug'' = Undefined \<longrightarrow> link_targets (PostPreview p) = [Str ''/posts/undefined''])"
proof -
  from assms(1) have t: "(\<exists>s. get p ''title'' = Str s) \<or> get p ''title'' = Undefined"
    by (rule string_or_missing_cases)
  from assms(2) have d: "(\<exists>s. get p ''date'' = Str s) \<or> get p ''date'' = Undefined"
    by (rule string_or_missing_cases)
  from assms(3) have e: "(\<exists>s. get p ''excerpt'' = Str s) \<or> get p ''excerpt'' = Undefined"
    by (rule string_or_missing_cases)
  have root: "elem_type (PostPreview p) = Some (Host ''div'')"
    by (simp add: PostPreview_unfold)
  have slots:
    "visible_text fmt (child 0 (PostPreview p)) = Inr (field_text (get p ''title''))"
    "visible_text fmt (child 1 (PostPreview p))
       = Inr (case get p ''date'' of Str d \<Rightarrow> fmt d | _ \<Rightarrow> [])"
    "visible_text fmt (child 2 (PostPreview p)) = Inr (field_text (get p ''excerpt''))"
    using t d e
    by (auto simp: PostPreview_unfold child_def get_def [of "[_]"] get_def [of "_ # _ # _"]
          eval_nat_numeral field_text_def DateFormatter_def)
  have whole: "visible_text fmt (PostPreview p) =
           Inr (field_text (get p ''title'') @
                (case get p ''date'' of Str d \<Rightarrow> fmt d | _ \<Rightarrow> []) @
                field_text (get p ''excerpt''))"
    using t d e
    by (auto simp: PostPreview_unfold field_text_def DateFormatter_def get_def [of "[_]"])
  have links: "link_targets (PostPreview p) = [Str (''/posts/'' @ to_string (get p ''slug''))]"
    using t d e by (auto simp: PostPreview_unfold get_def [of "_ # _"])
  from root slots whole links show ?thesis
    by (simp add: field_text_def)
qed

theorem PostPreview_missing_fields_witness:
  "string_or_missing (get [(''title'', Str ''Sample''), (''date'', Undefined)] ''title'') \<and>
   string_or_missing (get [(''title'', Str ''Sample''), (''date'', Undefined)] ''date'') \<and>
   string_or_missing (get [(''title'', Str ''Sample''), (''date'', Undefined)] ''excerpt'') \<and>
   string_or_missing (get [(''title'', Str ''Sample''), (''date'', Undefined)] ''slug'') \<and>
   visible_text (\<lambda>d. d) (PostPreview [(''title'', Str ''Sample''), (''date'', Undefined)])
     = Inr ''Sample'' \<and>
   visible_text (\<lambda>d. d) (child 1 (PostPreview [(''title'', Str ''Sample''), (''date'', Undefined)]))
     = Inr [] \<and>
   visible_text (\<lambda>d. d) (child 2 (PostPreview [(''title'', Str ''Sample''), (''date'', Undefined)]))
     = Inr [] \<and>
   link_targets (PostPreview [(''title'', Str ''Sample''), (''date'', Undefined)])
     = [Str ''/posts/undefined'']"
proof -
  let ?p = "[(''title'', Str ''Sample''), (''date'', Undefined)]"
  have h1: "string_or_missing (get ?p ''title'')"
    by (simp add: get_def string_or_missing_def)
  have h2: "string_or_missing (get ?p ''date'')"
    by (simp add: get_def string_or_missing_def)
  have h3: "string_or_missing (get ?p ''excerpt'')"
    by (simp add: get_def string_or_missing_def)
  have h4: "string_or_missing (get ?p ''slug'')"
    by (simp add: get_def string_or_missing_def)
  have g: "get ?p ''title'' = Str ''Sample''" "get ?p ''date'' = Undefined"
    "get ?p ''excerpt'' = Undefined" "get ?p ''slug'' = Undefined"
    by (simp_all add: get_def)
  from PostPreview_missing_fields [OF h1 h2 h3 h4, of "\<lambda>d. d"] h1 h2 h3 h4 show ?thesis
    by (simp add: g field_text_def)
qed

text \<open>The strings are needed: a title that is a plain object makes React throw.\<close>

lemma PostPreview_object_title_throws:
  "visible_text fmt (PostPreview [(''title'', Obj [])]) = Inl InvalidChild"
  by (simp add: PostPreview_unfold get_def)

text \<open>
  C10. The output of \<open>PostPreview\<close> does not depend on the author: two inputs that agree
  on title, date, excerpt and slug give the same tree, whatever their authors are. The
  elements of the tree are the \<open>div\<close>, the heading with its \<open>Link\<close>, the \<open>DateFormatter\<close>
  and the paragraph, around what the title, the date and the excerpt hold; no \<open>Avatar\<close> is
  created.
\<close>

theorem PostPreview_ignores_author:
  assumes "get p ''title'' = get q ''title''"
    and "get p ''date'' = get q ''date''"
    and "get p ''excerpt'' = get q ''excerpt''"
    and "get p ''slug'' = get q ''slug''"
  shows "PostPreview p = PostPreview q \<and>
         element_types (PostPreview p) =
           [Host ''div'', Host ''h3'', Extern ''Link''] @ element_types (get p ''title'') @
           [Host ''div'', Extern ''DateFormatter''] @ element_types (get p ''date'') @
           [Host ''p''] @ element_types (get p ''excerpt'')"
  using assms by (simp add: PostPreview_unfold)

theorem PostPreview_ignores_author_witness:
  "get [(''title'', Str ''Sample''), (''slug'', Str ''sample''),
        (''author'', Obj [(''name'', Str ''Hao Jiang'')])] ''title''
     = get [(''title'', Str ''Sample''), (''slug'', Str ''sample'')] ''title'' \<and>
   get [(''title'', Str ''Sample''), (''slug'', Str ''sample''),
        (''author'', Obj [(''name'', Str ''Hao Jiang'')])] ''date''
     = get [(''title'', Str ''Sample''), (''slug'', Str ''sample'')] ''date'' \<and>
   get [(''title'', Str ''Sample''), (''slug'', Str ''sample''),
        (''author'', Obj [(''name'', Str ''Hao Jiang'')])] ''excerpt''
     = get [(''title'', Str ''Sample''), (''slug'', Str ''sample'')] ''excerpt'' \<and>
   get [(''title'', Str ''Sample''), (''slug'', Str ''sample''),
        (''author'', Obj [(''name'', Str ''Hao Jiang'')])] ''slug''
     = get [(''title'', Str ''Sample''), (''slug'', Str ''sample'')] ''slug'' \<and>
   PostPreview [(''title'', Str ''Sample''), (''slug'', Str ''sample''),
                (''author'', Obj [(''name'', Str ''Hao Jiang'')])]
     = PostPreview [(''title'', Str ''Sample''), (''slug'', Str ''sample'')]"
  using PostPreview_ignores_author
    [of "[(''title'', Str ''Sample''), (''slug'', Str ''sample''),
          (''author'', Obj [(''name'', Str ''Hao Jiang'')])]"
        "[(''title'', Str ''Sample''), (''slug'', Str ''sample'')]"]
  by (simp add: get_def)

section \<open>The component registry\<close>

text \<open>
  C3. The keys of the registry are exactly \<open>pre\<close>, \<open>a\<close>, \<open>Hike\<close>, \<open>HikeWithPreview\<close>,
  \<open>HikeWithNoPreview\<close>, \<open>Focus\<close>, \<open>StepHead\<close>, \<open>CodeSlot\<close> and \<open>PreviewSlot\<close>, each once. For
  every other tag the lookup finds no renderer, and the tag resolves to default HTML
  element handling.
\<close>

theorem registry_unmapped_tag:
  "map fst components =
     [''pre'', ''a'', ''Hike'', ''HikeWithPreview'', ''HikeWithNoPreview'', ''Focus'',
      ''StepHead'', ''CodeSlot'', ''PreviewSlot''] \<and>
   distinct (map fst components) \<and>
   (tag \<notin> set [''pre'', ''a'', ''Hike'', ''HikeWithPreview'', ''HikeWithNoPreview'', ''Focus'',
                ''StepHead'', ''CodeSlot'', ''PreviewSlot''] \<longrightarrow>
      map_of components tag = None \<and> mdx_resolve components tag = DefaultHtml tag)"
proof -
  have keys: "map fst components =
     [''pre'', ''a'', ''Hike'', ''HikeWithPreview'', ''HikeWithNoPreview'', ''Focus'',
      ''StepHead'', ''CodeSlot'', ''PreviewSlot'']"
    by (simp add: components_def)
  have d: "distinct (map fst components)"
    unfolding keys by simp
  have "map_of components tag = None" if "tag \<notin> set (map fst components)"
    using that by (simp add: map_of_eq_None_iff)
  then show ?thesis
    using d by (simp add: mdx_resolve_def keys [symmetric])
qed

theorem registry_unmapped_tag_witness:
  "''blockquote'' \<notin> set [''pre'', ''a'', ''Hike'', ''HikeWithPreview'', ''HikeWithNoPreview'',
                          ''Focus'', ''StepHead'', ''CodeSlot'', ''PreviewSlot''] \<and>
   map_of components ''blockquote'' = None \<and>
   mdx_resolve components ''blockquote'' = DefaultHtml ''blockquote''"
  using registry_unmapped_tag [of "''blockquote''"] by simp

section \<open>The content loader and the content set\<close>

text \<open>
  C2. For every content file whose front matter misses the title, the excerpt or the
  date, the loader returns a validation error that carries the path of the file, and
  no Post.
\<close>

theorem load_post_missing_field:
  assumes "fm_title (cf_front f) = None \<or> fm_excerpt (cf_front f) = None \<or>
           fm_date (cf_front f) = None"
  shows "(\<exists>field. load_post slug_of f = Inl (ValidationError (cf_path f) field)) \<and>
         (\<forall>p. load_post slug_of f \<noteq> Inr p)"
  using assms by (auto simp: load_post_def split: option.splits)

theorem load_post_missing_field_witness:
  "fm_date (cf_front \<lparr>cf_path = ''posts/draft.md'',
                      cf_front = service_worker_md\<lparr>fm_date := None\<rparr>,
                      cf_body = ''## Web Worker''\<rparr>) = None \<and>
   (\<exists>field. load_post (\<lambda>path. path)
      \<lparr>cf_path = ''posts/draft.md'', cf_front = service_worker_md\<lparr>fm_date := None\<rparr>,
       cf_body = ''## Web Worker''\<rparr>
      = Inl (ValidationError ''posts/draft.md'' field)) \<and>
   (\<forall>p. load_post (\<lambda>path. path)
      \<lparr>cf_path = ''posts/draft.md'', cf_front = service_worker_md\<lparr>fm_date := None\<rparr>,
       cf_body = ''## Web Worker''\<rparr> \<noteq> Inr p)"
  using load_post_missing_field
    [of "\<lparr>cf_path = ''posts/draft.md'', cf_front = service_worker_md\<lparr>fm_date := None\<rparr>,
          cf_body = ''## Web Worker''\<rparr>" "\<lambda>path. path"]
  by simp

lemma required_fields_content:
  "required_fields fp_md" "required_fields monad_md"
  "required_fields react_performance_recipes_md" "required_fields react_md"
  "required_fields service_worker_md" "required_fields functor_front"
  "required_fields recipes_front" "required_fields mini_react_front"
  "required_fields closures_front"
  by (simp_all add: required_fields_def fp_md_def monad_md_def
        react_performance_recipes_md_def react_md_def service_worker_md_def functor_front_def
        recipes_front_def mini_react_front_def closures_front_def)

lemma load_post_required:
  assumes "required_fields fm"
  shows "\<exists>p. load_post slug_of \<lparr>cf_path = path, cf_front = fm, cf_body = body\<rparr> = Inr p \<and>
             post_title p \<noteq> [] \<and> post_excerpt p \<noteq> [] \<and> fm_date fm = Some (post_date p)"
  using assms by (auto simp: required_fields_def load_post_def split: option.splits)

lemma load_post_empty_title:
  "fm_title (cf_front f) = Some [] \<Longrightarrow>
     load_post slug_of f = Inl (ValidationError (cf_path f) ''title'')"
  by (simp add: load_post_def)

text \<open>
  C8. Every front matter block of the content set has a title and an excerpt that are not
  empty and a date, and loads into a Post with these fields; a content file with an empty
  title never passes validation.
\<close>

theorem content_set_required_fields:
  "(\<forall>fm \<in> set (map snd content_set @ further_fronts).
      required_fields fm \<and>
      (\<forall>slug_of path body.
         \<exists>p. load_post slug_of \<lparr>cf_path = path, cf_front = fm, cf_body = body\<rparr> = Inr p \<and>
             post_title p \<noteq> [] \<and> post_excerpt p \<noteq> [] \<and> fm_date fm = Some (post_date p))) \<and>
   (\<forall>slug_of f. fm_title (cf_front f) = Some [] \<longrightarrow>
      load_post slug_of f = Inl (ValidationError (cf_path f) ''title''))"
proof (intro conjI ballI allI impI)
  fix fm
  assume "fm \<in> set (map snd content_set @ further_fronts)"
  then show r: "required_fields fm"
    by (auto simp: content_set_def further_fronts_def required_fields_content)
  fix slug_of path body
  from r show "\<exists>p. load_post slug_of \<lparr>cf_path = path, cf_front = fm, cf_body = body\<rparr> = Inr p \<and>
             post_title p \<noteq> [] \<and> post_excerpt p \<noteq> [] \<and> fm_date fm = Some (post_date p)"
    by (rule load_post_required)
next
  fix slug_of and f :: content_file
  assume "fm_title (cf_front f) = Some []"
  then show "load_post slug_of f = Inl (ValidationError (cf_path f) ''title'')"
    by (rule load_post_empty_title)
qed


theorem content_set_required_fields_witness:
  "service_worker_md \<in> set (map snd content_set @ further_fronts) \<and>
   required_fields service_worker_md \<and>
   fm_title (cf_front \<lparr>cf_path = ''posts/untitled.md'',
                       cf_front = service_worker_md\<lparr>fm_title := Some []\<rparr>,
                       cf_body = []\<rparr>) = Some [] \<and>
   load_post (\<lambda>path. path)
     \<lparr>cf_path = ''posts/untitled.md'', cf_front = service_worker_md\<lparr>fm_title := Some []\<rparr>,
      cf_body = []\<rparr>
     = Inl (ValidationError ''posts/untitled.md'' ''title'')"
proof -
  let ?f = "\<lparr>cf_path = ''posts/untitled.md'',
             cf_front = service_worker_md\<lparr>fm_title := Some []\<rparr>, cf_body = []\<rparr>"
  have m: "service_worker_md \<in> set (map snd content_set @ further_fronts)"
    by (simp add: content_set_def)
  have t: "fm_title (cf_front ?f) = Some []"
    by simp
  note inv = content_set_required_fields [THEN conjunct1, THEN bspec, OF m, THEN conjunct1]
  note emp = content_set_required_fields [THEN conjunct2, THEN spec, THEN spec, THEN mp, OF t]
  have "load_post (\<lambda>path. path) ?f = Inl (ValidationError ''posts/untitled.md'' ''title'')"
    using emp [of "\<lambda>path. path"] by simp
  with m t inv show ?thesis
    by (intro conjI)
qed

end
